theory Spec2Isabelle
  imports Main "HOL-Library.Log_Nat"
begin

section \<open>Python strings\<close>

text \<open>
  A Python \<open>str\<close> is a sequence of Unicode code points. It is modelled as a list of
  natural numbers, one per code point, so that \<open>len\<close>, \<open>split\<close> and \<open>strip\<close> count and
  test what Python counts and tests. \<open>str\<close> turns an ASCII literal into such a list.
\<close>

type_synonym pystr = "nat list"

definition str :: "string \<Rightarrow> pystr" where
  "str s = map of_char s"

text \<open>
  \<open>isspace\<close> is the whitespace test that \<open>str.split()\<close> and \<open>str.strip()\<close> use without
  arguments: the code points of general category Zs or of bidirectional class WS, B or S
  (tab to carriage return, the four separators from 28 to 31, space, next line,
  no-break space, and the space characters from U+1680 to U+3000).
\<close>

definition isspace :: "nat \<Rightarrow> bool" where
  "isspace c \<longleftrightarrow>
     (9 \<le> c \<and> c \<le> 13) \<or> (28 \<le> c \<and> c \<le> 32) \<or> c = 133 \<or> c = 160 \<or> c = 5760 \<or>
     (8192 \<le> c \<and> c \<le> 8202) \<or> c = 8232 \<or> c = 8233 \<or> c = 8239 \<or> c = 8287 \<or> c = 12288"

text \<open>\<open>s.strip()\<close>: drop the whitespace at both ends.\<close>

definition strip :: "pystr \<Rightarrow> pystr" where
  "strip s = rev (dropWhile isspace (rev (dropWhile isspace s)))"

text \<open>
  \<open>s.split()\<close>: the maximal runs of non-whitespace code points, in order. The first
  argument is the word being read.
\<close>

fun split_from :: "pystr \<Rightarrow> pystr \<Rightarrow> pystr list" where
  "split_from w [] = (if w = [] then [] else [w])"
| "split_from w (c # cs) =
     (if isspace c then (if w = [] then split_from [] cs else w # split_from [] cs)
      else split_from (w @ [c]) cs)"

definition split :: "pystr \<Rightarrow> pystr list" where
  "split s = split_from [] s"

text \<open>\<open>sep.join(ws)\<close>.\<close>

fun join :: "pystr \<Rightarrow> pystr list \<Rightarrow> pystr" where
  "join sep [] = []"
| "join sep [w] = w"
| "join sep (w # v # ws) = w @ sep @ join sep (v # ws)"

text \<open>
  \<open>xs[:n]\<close> for a Python integer \<open>n\<close>: the first \<open>n\<close> elements, and for a negative \<open>n\<close>
  all but the last \<open>-n\<close>.
\<close>

definition slice_to :: "'a list \<Rightarrow> int \<Rightarrow> 'a list" where
  "slice_to xs n = (if 0 \<le> n then take (nat n) xs else take (length xs - nat (- n)) xs)"

text \<open>
  Reading a text file opened with \<open>open(path, "r")\<close>: the line ends \<open>\r\n\<close> and \<open>\r\<close> are
  translated to \<open>\n\<close>, and iterating over the file yields the lines, each with its
  final \<open>\n\<close> (the last line may have none).
\<close>

fun universal_newlines :: "pystr \<Rightarrow> pystr" where
  "universal_newlines [] = []"
| "universal_newlines [c] = [if c = 13 then 10 else c]"
| "universal_newlines (c # d # cs) =
     (if c = 13 \<and> d = 10 then 10 # universal_newlines cs
      else if c = 13 then 10 # universal_newlines (d # cs)
      else c # universal_newlines (d # cs))"

fun readlines :: "pystr \<Rightarrow> pystr list" where
  "readlines [] = []"
| "readlines (c # cs) =
     (if c = 10 then [c] # readlines cs
      else (case readlines cs of [] \<Rightarrow> [[c]] | l # ls \<Rightarrow> (c # l) # ls))"

definition file_lines :: "pystr \<Rightarrow> pystr list" where
  "file_lines content = readlines (universal_newlines content)"

section \<open>Python floats\<close>

text \<open>
  A finite Python \<open>float\<close> is an IEEE 754 double, which is a rational number; it is
  modelled by that rational. Every float operation returns the exact result rounded to
  the nearest double, ties to even: \<open>round_double\<close>, with a 53-bit significand.
  The exponent is unbounded in the model, so it agrees with the doubles wherever the
  result is a normal number (magnitude from \<open>2^-1022\<close> up to \<open>2^1024\<close>), which covers
  every pixel computation below.
\<close>

type_synonym pyfloat = rat

text \<open>\<open>exponent x\<close> is the integer \<open>e\<close> with \<open>2^e \<le> x < 2^(e+1)\<close>, for \<open>x > 0\<close>.\<close>

definition exponent :: "rat \<Rightarrow> int" where
  "exponent x =
     (let (a, b) = quotient_of x; k = bitlen a - bitlen b
      in if 2 powi k \<le> x then k else k - 1)"

definition round_half_even :: "rat \<Rightarrow> int" where
  "round_half_even m =
     (let f = \<lfloor>m\<rfloor>; r = m - of_int f
      in if r < 1 / 2 then f else if 1 / 2 < r then f + 1 else if even f then f else f + 1)"

definition ulp :: "rat \<Rightarrow> rat" where
  "ulp x = 2 powi (exponent x - 52)"

definition round_double :: "rat \<Rightarrow> pyfloat" where
  "round_double x =
     (if x = 0 then 0
      else if 0 < x then of_int (round_half_even (x / ulp x)) * ulp x
      else - (of_int (round_half_even (- x / ulp (- x))) * ulp (- x)))"

text \<open>\<open>n * x\<close> for an int \<open>n\<close> and a float \<open>x\<close>: the int is converted, then multiplied.\<close>

definition int_times_float :: "int \<Rightarrow> pyfloat \<Rightarrow> pyfloat" where
  "int_times_float n x = round_double (round_double (of_int n) * x)"

text \<open>\<open>a / b\<close> for ints, \<open>b\<close> not zero: the correctly rounded quotient.\<close>

definition true_div :: "int \<Rightarrow> int \<Rightarrow> pyfloat" where
  "true_div a b = round_double (of_int a / of_int b)"

text \<open>\<open>int(x)\<close> for a float: truncation towards zero.\<close>

definition int_of_float :: "pyfloat \<Rightarrow> int" where
  "int_of_float x = (if 0 \<le> x then \<lfloor>x\<rfloor> else \<lceil>x\<rceil>)"

section \<open>Configuration\<close>

definition CRUNCHYROLL_RSS_URL :: pystr where
  "CRUNCHYROLL_RSS_URL = str ''https://cr-news-api-service.prd.crunchyrollsvc.com/v1/ar-SA/rss''"

definition CRUNCHYROLL_SENT_FILE :: pystr where
  "CRUNCHYROLL_SENT_FILE = str ''sent_posts.txt''"

definition CRUNCHYROLL_ARTICLES_FILE :: pystr where
  "CRUNCHYROLL_ARTICLES_FILE = str ''crunchyroll_articles.json''"

definition YOUTUBE_RSS_URL :: pystr where
  "YOUTUBE_RSS_URL =
     str ''https://www.youtube.com/feeds/videos.xml?channel_id=UC1WGYjPeHHc_3nRXqbW3OcQ''"

definition YOUTUBE_SENT_FILE :: pystr where
  "YOUTUBE_SENT_FILE = str ''sent_videos.txt''"

definition YOUTUBE_ARTICLES_FILE :: pystr where
  "YOUTUBE_ARTICLES_FILE = str ''youtube_videos.json''"

definition MAX_ENTRIES_TO_CHECK :: nat where
  "MAX_ENTRIES_TO_CHECK = 5"

definition LOGO_MIN_WIDTH_RATIO :: pyfloat where
  "LOGO_MIN_WIDTH_RATIO = round_double (10 / 100)"

definition LOGO_MAX_WIDTH_RATIO :: pyfloat where
  "LOGO_MAX_WIDTH_RATIO = round_double (20 / 100)"

definition LOGO_MARGIN :: int where
  "LOGO_MARGIN = 10"

section \<open>Data\<close>

datatype feed = Crunchyroll | YouTube

text \<open>
  A feed entry as the feed parser hands it over. Reading an attribute that the entry
  lacks raises \<open>AttributeError\<close>, and \<open>hasattr\<close> tests for it: every attribute is
  optional. \<open>media_thumbnail\<close> is a list of dictionaries, of which only the key \<open>url\<close>
  is read; a dictionary without that key is \<open>None\<close> in the list.
\<close>

record entry =
  entry_id :: "pystr option"
  yt_videoid :: "pystr option"
  title :: "pystr option"
  link :: "pystr option"
  description :: "pystr option"
  media_thumbnail :: "pystr option list option"
  published :: "pystr option"
  updated :: "pystr option"

text \<open>The dictionary \<open>article_data\<close> / \<open>video_data\<close>, one field per key.\<close>

record article =
  art_id :: pystr
  art_title :: pystr
  art_url :: "pystr option"
  art_image_url :: "pystr option"
  art_description :: pystr
  art_date :: "pystr option"
  art_category :: pystr
  art_saved_at :: pystr

text \<open>
  The file of sent ids: absent, not readable as text, or a text. The file of articles:
  absent, not parsable as JSON, or the JSON array of the articles, which is what the bot
  itself writes; a JSON document of another shape is not considered. Opening a file for
  writing and writing to it succeed, and a written \<open>\n\<close> stays \<open>\n\<close>, as on a POSIX
  system.
\<close>

datatype sent_file = NoSentFile | UnreadableSent | SentText pystr

datatype articles_file = NoArticlesFile | Unparsable | Articles "article list"

text \<open>The size of a decoded image, and the picture \<open>add_logo_to_image\<close> composes.\<close>

record image =
  width :: int
  height :: int

record composite =
  post_size :: "int \<times> int"
  logo_size :: "int \<times> int"
  position :: "int \<times> int"

text \<open>
  What leaves the process: fetching a feed, fetching an image, a call of the Telegram
  bot (with \<open>chat_id\<close>, and whether the call returned: \<open>False\<close> when it raised), and
  \<open>asyncio.sleep\<close> with its seconds.
\<close>

datatype photo = PhotoBytes composite | PhotoUrl pystr

datatype delivery =
    SendPhoto "pystr option" photo pystr
  | SendMessage "pystr option" pystr

datatype effect = FeedFetch pystr | HttpGet pystr | Telegram delivery bool | Sleep nat

text \<open>
  The log: the level of each call of \<open>logging\<close> and what it reports. The text of a
  caught exception and the elapsed seconds are left out of the messages.
\<close>

datatype level = INFO | WARNING | ERROR

datatype message =
    ErrorReading pystr
  | ErrorWriting pystr
  | ErrorAddingLogo
  | NoEntriesFound feed
  | AlreadySent feed pystr
  | NewFound feed pystr
  | FailedToSend feed
  | ErrorParsingFeed feed
  | CheckCompleted feed nat
  | FatalNotSet
  | StartingRun
  | RunFinished

datatype exn = AttributeError | KeyError

datatype flow = Continue | Raised exn

text \<open>
  The surroundings of a run: the environment variables, and the answers of the libraries
  and of the network. \<open>feedparser_parse\<close> is \<open>None\<close> when parsing raises;
  \<open>soup_get_text\<close> and \<open>soup_find_img_src\<close> are the HTML parser (the text of a document,
  and the \<open>src\<close> of its first \<open>img\<close> tag when that tag has one); \<open>requests_get\<close> is the
  decoded image behind a URL, \<open>None\<close> when the request or the decoding raises;
  \<open>image_open_logo\<close> likewise for the logo file; \<open>pil_render\<close> tells whether resizing,
  pasting and encoding succeed; \<open>telegram_raises\<close> tells, from the effects so far,
  whether a call of the bot raises; \<open>datetime_now\<close> is the clock read for an entry.
\<close>

record world =
  TELEGRAM_TOKEN :: "pystr option"
  TELEGRAM_CHAT_ID :: "pystr option"
  feedparser_parse :: "pystr \<Rightarrow> entry list option"
  soup_get_text :: "pystr \<Rightarrow> pystr"
  soup_find_img_src :: "pystr \<Rightarrow> pystr option"
  logo_exists :: bool
  image_open_logo :: "image option"
  requests_get :: "pystr \<Rightarrow> image option"
  pil_render :: "composite \<Rightarrow> bool"
  telegram_raises :: "effect list \<Rightarrow> delivery \<Rightarrow> bool"
  datetime_now :: "feed \<Rightarrow> nat \<Rightarrow> pystr"

text \<open>
  The state a run works on: the files by name, the log, the effects so far, and the two
  local variables of a feed processor (\<open>sent_posts\<close> / \<open>sent_videos\<close> and
  \<open>new_posts_found\<close> / \<open>new_videos_found\<close>).
\<close>

record state =
  sent_fs :: "pystr \<Rightarrow> sent_file"
  articles_fs :: "pystr \<Rightarrow> articles_file"
  log_lines :: "(level \<times> message) list"
  trace :: "effect list"
  sent_posts :: "pystr set"
  new_posts_found :: nat

definition logging :: "level \<Rightarrow> message \<Rightarrow> state \<Rightarrow> state" where
  "logging l m st = st\<lparr>log_lines := log_lines st @ [(l, m)]\<rparr>"

definition truthy :: "pystr option \<Rightarrow> bool" where
  "truthy x = (case x of None \<Rightarrow> False | Some s \<Rightarrow> s \<noteq> [])"

section \<open>Helper functions of the bot\<close>

definition load_all_sent_posts :: "pystr \<Rightarrow> state \<Rightarrow> pystr set \<times> state" where
  "load_all_sent_posts sent_file st =
     (case sent_fs st sent_file of
        NoSentFile \<Rightarrow> ({}, st\<lparr>sent_fs := (sent_fs st)(sent_file := SentText [])\<rparr>)
      | UnreadableSent \<Rightarrow> ({}, logging ERROR (ErrorReading sent_file) st)
      | SentText content \<Rightarrow>
          (set (map strip (filter (\<lambda>line. strip line \<noteq> []) (file_lines content))), st))"

definition save_sent_post :: "pystr \<Rightarrow> pystr \<Rightarrow> state \<Rightarrow> state" where
  "save_sent_post post_id sent_file st =
     (case sent_fs st sent_file of
        NoSentFile \<Rightarrow>
          st\<lparr>sent_fs := (sent_fs st)(sent_file := SentText (post_id @ [10]))\<rparr>
      | UnreadableSent \<Rightarrow> logging ERROR (ErrorWriting sent_file) st
      | SentText content \<Rightarrow>
          st\<lparr>sent_fs := (sent_fs st)
                (sent_file := SentText (post_id @ [10] @ universal_newlines content))\<rparr>)"

definition load_articles :: "pystr \<Rightarrow> state \<Rightarrow> article list \<times> state" where
  "load_articles articles_file st =
     (case articles_fs st articles_file of
        NoArticlesFile \<Rightarrow> ([], st\<lparr>articles_fs := (articles_fs st)(articles_file := Articles [])\<rparr>)
      | Unparsable \<Rightarrow> ([], logging ERROR (ErrorReading articles_file) st)
      | Articles articles \<Rightarrow> (articles, st))"

definition save_article :: "article \<Rightarrow> pystr \<Rightarrow> state \<Rightarrow> state" where
  "save_article article_data articles_file st =
     (let (articles, st1) = load_articles articles_file st
      in if list_ex (\<lambda>article. art_id article = art_id article_data) articles then st1
         else st1\<lparr>articles_fs :=
                (articles_fs st1)(articles_file := Articles (article_data # articles))\<rparr>)"

text \<open>
  \<open>shorten_text(text, words)\<close>. The argument is \<open>None\<close> or a string; \<open>not text\<close> holds for
  \<open>None\<close> and for the empty string.
\<close>

definition shorten_text :: "pystr option \<Rightarrow> int \<Rightarrow> pystr" where
  "shorten_text text words =
     (case text of
        None \<Rightarrow> []
      | Some t \<Rightarrow>
          if t = [] then []
          else
            let w = split t;
                short = join (str '' '') (slice_to w words)
            in if int (length w) > words then short @ str ''...'' else short)"

definition clean_description :: "world \<Rightarrow> pystr option \<Rightarrow> pystr" where
  "clean_description w description_html =
     (case description_html of
        None \<Rightarrow> []
      | Some html \<Rightarrow> if html = [] then [] else strip (soup_get_text w html))"

definition add_logo_to_image :: "world \<Rightarrow> pystr \<Rightarrow> state \<Rightarrow> composite option \<times> state" where
  "add_logo_to_image w image_url st =
     (if \<not> logo_exists w then (None, st)
      else
        let st1 = st\<lparr>trace := trace st @ [HttpGet image_url]\<rparr>;
            failed = (None, logging ERROR ErrorAddingLogo st1)
        in case requests_get w image_url of
             None \<Rightarrow> failed
           | Some post_image \<Rightarrow>
               (case image_open_logo w of
                  None \<Rightarrow> failed
                | Some logo \<Rightarrow>
                    let pw = width post_image;
                        ph = height post_image;
                        lw = (if pw < 600 then int_of_float (int_times_float pw LOGO_MIN_WIDTH_RATIO)
                              else int_of_float (int_times_float pw LOGO_MAX_WIDTH_RATIO))
                    in if width logo = 0 then failed
                       else
                         let logo_ratio = true_div lw (width logo);
                             lh = int_of_float (int_times_float (height logo) logo_ratio);
                             output = \<lparr>post_size = (pw, ph), logo_size = (lw, lh),
                                       position = (pw - lw - LOGO_MARGIN, LOGO_MARGIN)\<rparr>
                         in if pil_render w output then (Some output, st1) else failed))"

section \<open>The feed processors\<close>

text \<open>
  \<open>entry.media_thumbnail[0]['url'] if hasattr(entry, 'media_thumbnail') and
  entry.media_thumbnail else None\<close>.
\<close>

definition thumbnail_url :: "entry \<Rightarrow> exn + pystr option" where
  "thumbnail_url e =
     (case media_thumbnail e of
        None \<Rightarrow> Inr None
      | Some [] \<Rightarrow> Inr None
      | Some (t # ts) \<Rightarrow> (case t of None \<Rightarrow> Inl KeyError | Some url \<Rightarrow> Inr (Some url)))"

text \<open>The publication date: \<open>published\<close>, else \<open>updated\<close>, else \<open>None\<close>.\<close>

definition pub_date :: "entry \<Rightarrow> pystr option" where
  "pub_date e = (case published e of Some p \<Rightarrow> Some p | None \<Rightarrow> updated e)"

text \<open>
  The \<open>try\<close> block of an entry, the same in both processors up to the file and the
  message: choose the call (photo with logo, photo by URL, or text), make it, and when it
  returns mark the id as sent and sleep unless \<open>i\<close> is the last index of a full batch;
  when it raises, log.
\<close>

definition choose_delivery ::
  "world \<Rightarrow> pystr option \<Rightarrow> pystr \<Rightarrow> state \<Rightarrow> delivery \<times> state" where
  "choose_delivery w image_url caption st =
     (case image_url of
        None \<Rightarrow> (SendMessage (TELEGRAM_CHAT_ID w) caption, st)
      | Some url \<Rightarrow>
          if url = [] then (SendMessage (TELEGRAM_CHAT_ID w) caption, st)
          else
            (case add_logo_to_image w url st of
               (Some image_with_logo, st1) \<Rightarrow>
                 (SendPhoto (TELEGRAM_CHAT_ID w) (PhotoBytes image_with_logo) caption, st1)
             | (None, st1) \<Rightarrow> (SendPhoto (TELEGRAM_CHAT_ID w) (PhotoUrl url) caption, st1)))"

definition SENT_FILE :: "feed \<Rightarrow> pystr" where
  "SENT_FILE f = (case f of Crunchyroll \<Rightarrow> CRUNCHYROLL_SENT_FILE | YouTube \<Rightarrow> YOUTUBE_SENT_FILE)"

definition send_entry ::
  "world \<Rightarrow> feed \<Rightarrow> nat \<Rightarrow> pystr \<Rightarrow> pystr option \<Rightarrow> pystr \<Rightarrow> state \<Rightarrow> state" where
  "send_entry w f i post_id image_url caption st =
     (let (d, st1) = choose_delivery w image_url caption st
      in if telegram_raises w (trace st1) d
         then logging ERROR (FailedToSend f) (st1\<lparr>trace := trace st1 @ [Telegram d False]\<rparr>)
         else
           let st2 = st1\<lparr>trace := trace st1 @ [Telegram d True]\<rparr>;
               st3 = save_sent_post post_id (SENT_FILE f) st2;
               st4 = st3\<lparr>sent_posts := insert post_id (sent_posts st3)\<rparr>
           in if i < MAX_ENTRIES_TO_CHECK - 1 then st4\<lparr>trace := trace st4 @ [Sleep 2]\<rparr>
              else st4)"

text \<open>
  The part of the Crunchyroll loop body from the log line of a new post to the caption:
  it returns the image URL and the caption, with the article saved, or the exception that
  leaves the loop.
\<close>

definition crunchyroll_image_url :: "world \<Rightarrow> entry \<Rightarrow> exn + pystr option" where
  "crunchyroll_image_url w e =
     (case thumbnail_url e of
        Inl x \<Rightarrow> Inl x
      | Inr image_url \<Rightarrow>
          if \<not> truthy image_url then
            (case description e of
               None \<Rightarrow> Inr image_url
             | Some d \<Rightarrow>
                 (case soup_find_img_src w d of None \<Rightarrow> Inr image_url | Some src \<Rightarrow> Inr (Some src)))
          else Inr image_url)"

definition crunchyroll_new_post ::
  "world \<Rightarrow> nat \<Rightarrow> entry \<Rightarrow> pystr \<Rightarrow> pystr \<Rightarrow> state \<Rightarrow> exn + (pystr option \<times> pystr \<times> state)" where
  "crunchyroll_new_post w i e post_id title' st =
     (let st1 = logging INFO (NewFound Crunchyroll title') st;
          st2 = st1\<lparr>new_posts_found := new_posts_found st1 + 1\<rparr>
      in case crunchyroll_image_url w e of
           Inl x \<Rightarrow> Inl x
         | Inr image_url \<Rightarrow>
             (case description e of
                None \<Rightarrow> Inl AttributeError
              | Some d \<Rightarrow>
                  let full_description = clean_description w (Some d);
                      article_data =
                        \<lparr>art_id = post_id, art_title = title', art_url = link e,
                         art_image_url = image_url, art_description = full_description,
                         art_date = pub_date e, art_category = str ''Crunchyroll News'',
                         art_saved_at = datetime_now w Crunchyroll i\<rparr>;
                      st3 = save_article article_data CRUNCHYROLL_ARTICLES_FILE st2;
                      short_desc = shorten_text (Some full_description) 25;
                      caption = [128240] @ str '' *'' @ title' @ str ''*'' @ [10, 10] @ short_desc
                  in Inr (image_url, caption, st3)))"

text \<open>
  One pass of the Crunchyroll loop body for the entry at index \<open>i\<close>. \<open>Continue\<close> is the
  end of the body or its \<open>continue\<close>; \<open>Raised\<close> is an exception that the body does not
  catch.
\<close>

definition crunchyroll_entry :: "world \<Rightarrow> nat \<Rightarrow> entry \<Rightarrow> state \<Rightarrow> flow \<times> state" where
  "crunchyroll_entry w i e st =
     (case entry_id e of
        None \<Rightarrow> (Raised AttributeError, st)
      | Some post_id \<Rightarrow>
          (case title e of
             None \<Rightarrow> (Raised AttributeError, st)
           | Some title' \<Rightarrow>
               if post_id \<in> sent_posts st
               then (Continue, logging INFO (AlreadySent Crunchyroll title') st)
               else
                 (case crunchyroll_new_post w i e post_id title' st of
                    Inl x \<Rightarrow>
                      (Raised x,
                       (logging INFO (NewFound Crunchyroll title') st)
                         \<lparr>new_posts_found := new_posts_found st + 1\<rparr>)
                  | Inr (image_url, caption, st3) \<Rightarrow>
                      (Continue, send_entry w Crunchyroll i post_id image_url caption st3))))"

text \<open>The same part of the YouTube loop body, and the body.\<close>

definition youtube_new_video ::
  "world \<Rightarrow> nat \<Rightarrow> entry \<Rightarrow> pystr \<Rightarrow> pystr \<Rightarrow> state \<Rightarrow> exn + (pystr option \<times> pystr \<times> state)" where
  "youtube_new_video w i e video_id title' st =
     (let st1 = logging INFO (NewFound YouTube title') st;
          st2 = st1\<lparr>new_posts_found := new_posts_found st1 + 1\<rparr>
      in case thumbnail_url e of
           Inl x \<Rightarrow> Inl x
         | Inr thumbnail_url' \<Rightarrow>
             (case link e of
                None \<Rightarrow> Inl AttributeError
              | Some video_url \<Rightarrow>
                  (case description e of
                     None \<Rightarrow> Inl AttributeError
                   | Some d \<Rightarrow>
                       let full_description = clean_description w (Some d);
                           video_data =
                             \<lparr>art_id = video_id, art_title = title', art_url = Some video_url,
                              art_image_url = thumbnail_url', art_description = full_description,
                              art_date = pub_date e, art_category = str ''YouTube Video'',
                              art_saved_at = datetime_now w YouTube i\<rparr>;
                           st3 = save_article video_data YOUTUBE_ARTICLES_FILE st2;
                           short_desc = shorten_text (Some full_description) 25;
                           caption =
                             [127916] @ str '' *'' @ title' @ str ''*'' @ [10, 10] @ short_desc @
                             [10, 10] @ str ''[Watch on YouTube]('' @ video_url @ str '')''
                       in Inr (thumbnail_url', caption, st3))))"

definition youtube_entry :: "world \<Rightarrow> nat \<Rightarrow> entry \<Rightarrow> state \<Rightarrow> flow \<times> state" where
  "youtube_entry w i e st =
     (case yt_videoid e of
        None \<Rightarrow> (Raised AttributeError, st)
      | Some video_id \<Rightarrow>
          (case title e of
             None \<Rightarrow> (Raised AttributeError, st)
           | Some title' \<Rightarrow>
               if video_id \<in> sent_posts st
               then (Continue, logging INFO (AlreadySent YouTube title') st)
               else
                 (case youtube_new_video w i e video_id title' st of
                    Inl x \<Rightarrow>
                      (Raised x,
                       (logging INFO (NewFound YouTube title') st)
                         \<lparr>new_posts_found := new_posts_found st + 1\<rparr>)
                  | Inr (thumbnail_url', caption, st3) \<Rightarrow>
                      (Continue, send_entry w YouTube i video_id thumbnail_url' caption st3))))"

text \<open>
  \<open>for i, entry in enumerate(entries)\<close>, from index \<open>i\<close> on: the body runs on each entry
  in turn, until one raises.
\<close>

fun for_entries ::
  "(nat \<Rightarrow> entry \<Rightarrow> state \<Rightarrow> flow \<times> state) \<Rightarrow> nat \<Rightarrow> entry list \<Rightarrow> state \<Rightarrow> flow \<times> state" where
  "for_entries body i [] st = (Continue, st)"
| "for_entries body i (e # es) st =
     (case body i e st of
        (Raised x, st1) \<Rightarrow> (Raised x, st1)
      | (Continue, st1) \<Rightarrow> for_entries body (Suc i) es st1)"

definition completed :: "feed \<Rightarrow> state \<Rightarrow> state" where
  "completed f st = logging INFO (CheckCompleted f (new_posts_found st)) st"

text \<open>
  The start of a feed processor: load the sent ids into the local set, reset the counter,
  and fetch the feed.
\<close>

definition start_check :: "pystr \<Rightarrow> pystr \<Rightarrow> state \<Rightarrow> state" where
  "start_check sent_file url st =
     (let (loaded, st1) = load_all_sent_posts sent_file st;
          st2 = st1\<lparr>sent_posts := loaded, new_posts_found := 0\<rparr>
      in st2\<lparr>trace := trace st2 @ [FeedFetch url]\<rparr>)"

text \<open>
  A feed without entries ends the processor at once (\<open>return\<close>), without the closing log
  line; an exception of the parser or of the loop is logged as a parsing error.
\<close>

definition check_and_send_crunchyroll_news :: "world \<Rightarrow> state \<Rightarrow> state" where
  "check_and_send_crunchyroll_news w st =
     (let st3 = start_check CRUNCHYROLL_SENT_FILE CRUNCHYROLL_RSS_URL st
      in case feedparser_parse w CRUNCHYROLL_RSS_URL of
           None \<Rightarrow> completed Crunchyroll (logging ERROR (ErrorParsingFeed Crunchyroll) st3)
         | Some entries \<Rightarrow>
             if entries = [] then logging WARNING (NoEntriesFound Crunchyroll) st3
             else
               (case for_entries (crunchyroll_entry w) 0 (take MAX_ENTRIES_TO_CHECK entries) st3 of
                  (Raised x, st4) \<Rightarrow>
                    completed Crunchyroll (logging ERROR (ErrorParsingFeed Crunchyroll) st4)
                | (Continue, st4) \<Rightarrow> completed Crunchyroll st4))"

definition check_and_send_youtube_video :: "world \<Rightarrow> state \<Rightarrow> state" where
  "check_and_send_youtube_video w st =
     (let st3 = start_check YOUTUBE_SENT_FILE YOUTUBE_RSS_URL st
      in case feedparser_parse w YOUTUBE_RSS_URL of
           None \<Rightarrow> completed YouTube (logging ERROR (ErrorParsingFeed YouTube) st3)
         | Some entries \<Rightarrow>
             if entries = [] then logging WARNING (NoEntriesFound YouTube) st3
             else
               (case for_entries (youtube_entry w) 0 (take MAX_ENTRIES_TO_CHECK entries) st3 of
                  (Raised x, st4) \<Rightarrow>
                    completed YouTube (logging ERROR (ErrorParsingFeed YouTube) st4)
                | (Continue, st4) \<Rightarrow> completed YouTube st4))"

section \<open>The run\<close>

definition check_and_send_content :: "world \<Rightarrow> state \<Rightarrow> state" where
  "check_and_send_content w st =
     (if \<not> truthy (TELEGRAM_TOKEN w) \<or> \<not> truthy (TELEGRAM_CHAT_ID w)
      then logging ERROR FatalNotSet st
      else
        let st1 = logging INFO StartingRun st;
            st2 = check_and_send_crunchyroll_news w st1;
            st3 = check_and_send_youtube_video w st2
        in logging INFO RunFinished st3)"

section \<open>Example data\<close>

text \<open>A state with no file, an empty log and no effect yet, and a sample article.\<close>

definition example_state :: state where
  "example_state =
     \<lparr>sent_fs = (\<lambda>p. NoSentFile), articles_fs = (\<lambda>p. NoArticlesFile), log_lines = [],
      trace = [], sent_posts = {}, new_posts_found = 0\<rparr>"


text \<open>
  Surroundings in which both variables are set, no feed has an entry, the HTML parser
  returns its input, there is no logo, and the bot never raises; and an entry with every
  attribute but a thumbnail and dates.
\<close>

definition example_world :: world where
  "example_world =
     \<lparr>TELEGRAM_TOKEN = Some (str ''token''), TELEGRAM_CHAT_ID = Some (str ''chat''),
      feedparser_parse = (\<lambda>url. Some []), soup_get_text = (\<lambda>html. html),
      soup_find_img_src = (\<lambda>html. None), logo_exists = False, image_open_logo = None,
      requests_get = (\<lambda>url. None), pil_render = (\<lambda>c. True),
      telegram_raises = (\<lambda>t d. False), datetime_now = (\<lambda>f i. str ''2024-01-01T00:00:00'')\<rparr>"

definition example_entry :: "pystr \<Rightarrow> entry" where
  "example_entry i =
     \<lparr>entry_id = Some i, yt_videoid = Some i, title = Some (str ''title''),
      link = Some (str ''https://example.org/''), description = Some (str ''text''),
      media_thumbnail = None, published = None, updated = None\<rparr>"

text \<open>
  An entry whose id is among the sent ids but which has no title, and a state in which
  the ids \<open>a\<close> and \<open>c\<close> are in the set of sent ids.
\<close>

definition seen_untitled_entry :: entry where
  "seen_untitled_entry = (example_entry (str ''a''))\<lparr>title := None\<rparr>"

definition seen_state :: state where
  "seen_state = example_state\<lparr>sent_posts := {str ''a'', str ''c''}\<rparr>"

text \<open>
  An entry without id, a feed that holds it before the entry \<open>b\<close>, and a feed that holds
  only \<open>b\<close>.
\<close>

definition entry_without_id :: entry where
  "entry_without_id = (example_entry (str ''a''))\<lparr>entry_id := None\<rparr>"

definition two_entry_world :: world where
  "two_entry_world =
     example_world\<lparr>feedparser_parse := (\<lambda>url. Some [entry_without_id, example_entry (str ''b'')])\<rparr>"

definition one_entry_world :: world where
  "one_entry_world = example_world\<lparr>feedparser_parse := (\<lambda>url. Some [example_entry (str ''b'')])\<rparr>"


definition crunchyroll_caption :: pystr where
  "crunchyroll_caption = [128240] @ str '' *title*'' @ [10, 10] @ str ''text''"

definition youtube_caption :: pystr where
  "youtube_caption =
     [127916] @ str '' *title*'' @ [10, 10] @ str ''text'' @ [10, 10] @
     str ''[Watch on YouTube](https://example.org/)''"

definition saved_article :: "pystr \<Rightarrow> article" where
  "saved_article category =
     \<lparr>art_id = str ''b'', art_title = str ''title'', art_url = Some (str ''https://example.org/''),
      art_image_url = None, art_description = str ''text'', art_date = None,
      art_category = category, art_saved_at = str ''2024-01-01T00:00:00''\<rparr>"

definition saved_state :: "feed \<Rightarrow> pystr \<Rightarrow> pystr \<Rightarrow> state" where
  "saved_state f category file =
     save_article (saved_article category) file
       ((logging INFO (NewFound f (str ''title'')) example_state)\<lparr>new_posts_found := 1\<rparr>)"

text \<open>
  A stand-in for the HTML parser in examples: the text outside the tags of a document
  without entities and comments. Surroundings with that parser; and surroundings with a
  logo of 100 by 100 pixels in which every image URL gives an image of 500 by 300.
\<close>

fun drop_tags :: "bool \<Rightarrow> pystr \<Rightarrow> pystr" where
  "drop_tags in_tag [] = []"
| "drop_tags in_tag (c # cs) =
     (if c = 60 then drop_tags True cs
      else if in_tag then drop_tags (c \<noteq> 62) cs
      else c # drop_tags False cs)"

definition html_world :: world where
  "html_world = example_world\<lparr>soup_get_text := drop_tags False\<rparr>"


text \<open>Effects that a step adds to the trace.\<close>

definition new_effects :: "state \<Rightarrow> state \<Rightarrow> effect list" where
  "new_effects st st1 = drop (length (trace st)) (trace st1)"

definition is_sleep :: "effect \<Rightarrow> bool" where
  "is_sleep x = (case x of Sleep n \<Rightarrow> True | _ \<Rightarrow> False)"

text \<open>
  A file of sent ids with padded lines, blank lines, the three kinds of line end and a
  repeated id.
\<close>

definition example_sent_text :: pystr where
  "example_sent_text =
     str ''  abc '' @ [13, 10, 10, 9] @ str ''xyz'' @ [13] @ str ''abc'' @ [10, 32, 10]"

definition example_sent_state :: state where
  "example_sent_state = example_state\<lparr>sent_fs := (\<lambda>p. SentText example_sent_text)\<rparr>"

section \<open>Properties of the string functions\<close>

lemma split_from_words:
  "v \<in> set (split_from w s) \<Longrightarrow> \<forall>c \<in> set w. \<not> isspace c \<Longrightarrow>
   v \<noteq> [] \<and> (\<forall>c \<in> set v. \<not> isspace c)"
proof (induction s arbitrary: w)
  case Nil
  then show ?case by (simp split: if_splits)
next
  case (Cons c cs)
  show ?case
  proof (cases "isspace c")
    case True
    with Cons.prems have "v = w \<and> w \<noteq> [] \<or> v \<in> set (split_from [] cs)"
      by (auto split: if_splits)
    then show ?thesis
      using Cons.IH [of "[]"] Cons.prems(2) by auto
  next
    case False
    with Cons.prems have "v \<in> set (split_from (w @ [c]) cs)" by simp
    then show ?thesis
      using Cons.IH [of "w @ [c]"] Cons.prems(2) False by auto
  qed
qed

lemma split_words: "v \<in> set (split s) \<Longrightarrow> v \<noteq> [] \<and> (\<forall>c \<in> set v. \<not> isspace c)"
  unfolding split_def using split_from_words [of v "[]" s] by simp

lemma concat_split_from: "concat (split_from w s) = w @ filter (\<lambda>c. \<not> isspace c) s"
  by (induction s arbitrary: w) simp_all

lemma concat_split: "concat (split s) = filter (\<lambda>c. \<not> isspace c) s"
  by (simp add: split_def concat_split_from)

lemma split_from_word:
  "\<forall>c \<in> set v. \<not> isspace c \<Longrightarrow> split_from w (v @ s) = split_from (w @ v) s"
  by (induction v arbitrary: w) simp_all

text \<open>Splitting undoes joining words with one whitespace character.\<close>

lemma split_join:
  "\<forall>v \<in> set ws. v \<noteq> [] \<and> (\<forall>c \<in> set v. \<not> isspace c) \<Longrightarrow> isspace sp \<Longrightarrow>
   split (join [sp] ws) = ws"
proof (induction ws)
  case Nil
  then show ?case by (simp add: split_def)
next
  case (Cons w ws)
  show ?case
  proof (cases ws)
    case Nil
    with Cons.prems show ?thesis
      using split_from_word [of w "[]" "[]"] by (simp add: split_def)
  next
    case (Cons v vs)
    with Cons.prems Cons.IH show ?thesis
      using split_from_word [of w "[]" "sp # join [sp] (v # vs)"] by (simp add: split_def)
  qed
qed

section \<open>Shortening a description\<close>

text \<open>
  Claim C7. For a word limit \<open>N \<ge> 0\<close>, \<open>shorten_text(text, words=N)\<close> is the empty string
  when \<open>text\<close> is \<open>None\<close> or empty. Otherwise it joins the first \<open>N\<close> whitespace-separated
  words of \<open>text\<close> with single spaces and appends \<open>...\<close> when \<open>text\<close> has strictly more
  than \<open>N\<close> words; with at most \<open>N\<close> words it is the join of all the words and nothing
  else. The words are non-empty, hold no whitespace, and together are the
  non-whitespace characters of \<open>text\<close> in order. \<open>shorten_text("a b c d e", 3)\<close> is
  \<open>"a b c..."\<close> and \<open>shorten_text("a b", 3)\<close> is \<open>"a b"\<close>.
\<close>

theorem shorten_text_words:
  "0 \<le> N \<Longrightarrow>
   shorten_text None N = [] \<and>
   shorten_text (Some []) N = [] \<and>
   shorten_text (Some t) N =
     (if N < int (length (split t)) then join (str '' '') (take (nat N) (split t)) @ str ''...''
      else join (str '' '') (split t)) \<and>
   (\<forall>v \<in> set (split t). v \<noteq> [] \<and> (\<forall>c \<in> set v. \<not> isspace c)) \<and>
   concat (split t) = filter (\<lambda>c. \<not> isspace c) t \<and>
   shorten_text (Some (str ''a b c d e'')) 3 = str ''a b c...'' \<and>
   shorten_text (Some (str ''a b'')) 3 = str ''a b''"
proof (intro conjI impI)
  assume N: "0 \<le> N"
  show "shorten_text None N = []" by (simp add: shorten_text_def)
  show "shorten_text (Some []) N = []" by (simp add: shorten_text_def)
  show "shorten_text (Some t) N =
     (if N < int (length (split t)) then join (str '' '') (take (nat N) (split t)) @ str ''...''
      else join (str '' '') (split t))"
  proof (cases "t = []")
    case True
    with N show ?thesis by (simp add: shorten_text_def split_def)
  next
    case False
    with N show ?thesis by (simp add: shorten_text_def slice_to_def Let_def)
  qed
  show "\<forall>v \<in> set (split t). v \<noteq> [] \<and> (\<forall>c \<in> set v. \<not> isspace c)"
    using split_words by blast
  show "concat (split t) = filter (\<lambda>c. \<not> isspace c) t" by (rule concat_split)
  show "shorten_text (Some (str ''a b c d e'')) 3 = str ''a b c...''" by code_simp
  show "shorten_text (Some (str ''a b'')) 3 = str ''a b''" by code_simp
qed

theorem shorten_text_words_witness:
  "(0::int) \<le> 2 \<and> shorten_text (Some (str ''x  y z'')) 2 = str ''x y...''"
  using shorten_text_words [of 2 "str ''x  y z''"] by (simp add: split_def str_def isspace_def)

section \<open>Saving an article\<close>






section \<open>Loading the sent ids\<close>

lemma dropWhile_all: "(\<forall>c \<in> set (dropWhile P xs). P c) \<longleftrightarrow> (\<forall>c \<in> set xs. P c)"
  by (induction xs) auto

lemma strip_empty_iff: "strip s = [] \<longleftrightarrow> (\<forall>c \<in> set s. isspace c)"
proof -
  have "strip s = [] \<longleftrightarrow> dropWhile isspace (rev (dropWhile isspace s)) = []"
    by (simp add: strip_def)
  also have "\<dots> \<longleftrightarrow> (\<forall>c \<in> set (dropWhile isspace s). isspace c)"
    unfolding dropWhile_eq_Nil_conv by simp
  also have "\<dots> \<longleftrightarrow> (\<forall>c \<in> set s. isspace c)"
    by (rule dropWhile_all)
  finally show ?thesis .
qed

lemma last_dropWhile: "dropWhile P xs \<noteq> [] \<Longrightarrow> last (dropWhile P xs) = last xs"
  by (induction xs) (auto split: if_splits)

lemma strip_ends:
  assumes "strip s \<noteq> []"
  shows "\<not> isspace (hd (strip s)) \<and> \<not> isspace (last (strip s))"
proof -
  let ?t = "dropWhile isspace s"
  let ?u = "dropWhile isspace (rev ?t)"
  from assms have u: "?u \<noteq> []" by (simp add: strip_def)
  then have t: "?t \<noteq> []" by (cases ?t) simp_all
  have "\<not> isspace (hd ?u)" using u hd_dropWhile by blast
  then have l: "\<not> isspace (last (strip s))"
    using u by (simp add: strip_def last_rev)
  have "last ?u = last (rev ?t)" using u by (rule last_dropWhile)
  then have "hd (strip s) = hd ?t" using u t by (simp add: strip_def hd_rev last_rev)
  moreover have "\<not> isspace (hd ?t)" using t hd_dropWhile by blast
  ultimately show ?thesis using l by simp
qed

lemma strip_unspaced:
  "s \<noteq> [] \<Longrightarrow> \<not> isspace (hd s) \<Longrightarrow> \<not> isspace (last s) \<Longrightarrow> strip s = s"
proof -
  assume a: "s \<noteq> []" "\<not> isspace (hd s)" "\<not> isspace (last s)"
  then have "dropWhile isspace s = s" by (cases s) auto
  moreover have "dropWhile isspace (rev s) = rev s"
    using a by (cases "rev s") (auto simp: last_rev hd_rev dest: arg_cong [where f = hd])
  ultimately show ?thesis by (simp add: strip_def)
qed

lemma strip_strip: "strip (strip s) = strip s"
proof (cases "strip s = []")
  case True
  moreover have "strip [] = []" by (simp add: strip_def)
  ultimately show ?thesis by simp
next
  case False
  then show ?thesis using strip_ends [of s] strip_unspaced [of "strip s"] by simp
qed

lemma concat_readlines: "concat (readlines s) = s"
  by (induction s) (auto split: list.splits)

lemma readlines_lines:
  "l \<in> set (readlines s) \<Longrightarrow> l \<noteq> [] \<and> 10 \<notin> set (butlast l)"
proof (induction s arbitrary: l)
  case Nil
  then show ?case by simp
next
  case (Cons c cs)
  show ?case
  proof (cases "c = 10")
    case True
    with Cons show ?thesis by auto
  next
    case False
    show ?thesis
    proof (cases "readlines cs")
      case Nil
      with Cons False show ?thesis by auto
    next
      case (Cons k ks)
      with Cons.prems False have "l = c # k \<or> l \<in> set ks" by auto
      then show ?thesis
      proof
        assume "l = c # k"
        moreover have "k \<noteq> [] \<and> 10 \<notin> set (butlast k)" using Cons.IH [of k] Cons by simp
        ultimately show ?thesis using False by auto
      next
        assume "l \<in> set ks"
        then show ?thesis using Cons.IH [of l] Cons by simp
      qed
    qed
  qed
qed

text \<open>
  Claim C10. When the file of sent ids exists and is readable, \<open>load_all_sent_posts\<close>
  returns exactly the set of its lines, each stripped of leading and trailing whitespace,
  without the lines that are empty or hold only whitespace; it changes no file and logs
  nothing. So an id is in the result if and only if it is non-empty and is the stripped
  form of some line; every element is non-empty with no whitespace at either end; a
  repeated line is one element, as the result is a set. The lines are the pieces of the
  text, after translation of the line ends, that end at each newline.
\<close>

theorem load_all_sent_posts_lines:
  "sent_fs st p = SentText content \<Longrightarrow>
   load_all_sent_posts p st =
     ({strip l | l. l \<in> set (file_lines content) \<and> (\<exists>c \<in> set l. \<not> isspace c)}, st) \<and>
   (\<forall>x. x \<in> fst (load_all_sent_posts p st) \<longleftrightarrow>
        x \<noteq> [] \<and> (\<exists>l \<in> set (file_lines content). strip l = x)) \<and>
   (\<forall>x \<in> fst (load_all_sent_posts p st).
        x \<noteq> [] \<and> \<not> isspace (hd x) \<and> \<not> isspace (last x) \<and> strip x = x) \<and>
   concat (file_lines content) = universal_newlines content \<and>
   (\<forall>l \<in> set (file_lines content). l \<noteq> [] \<and> 10 \<notin> set (butlast l))"
proof (intro conjI)
  assume f: "sent_fs st p = SentText content"
  have r: "fst (load_all_sent_posts p st) =
      {strip l | l. l \<in> set (file_lines content) \<and> strip l \<noteq> []}"
    using f by (auto simp: load_all_sent_posts_def)
  show "load_all_sent_posts p st =
     ({strip l | l. l \<in> set (file_lines content) \<and> (\<exists>c \<in> set l. \<not> isspace c)}, st)"
    using f by (auto simp: load_all_sent_posts_def strip_empty_iff)
  show "\<forall>x. x \<in> fst (load_all_sent_posts p st) \<longleftrightarrow>
        x \<noteq> [] \<and> (\<exists>l \<in> set (file_lines content). strip l = x)"
    unfolding r by auto
  show "\<forall>x \<in> fst (load_all_sent_posts p st).
        x \<noteq> [] \<and> \<not> isspace (hd x) \<and> \<not> isspace (last x) \<and> strip x = x"
    unfolding r using strip_ends strip_strip by auto
  show "concat (file_lines content) = universal_newlines content"
    by (simp add: file_lines_def concat_readlines)
  show "\<forall>l \<in> set (file_lines content). l \<noteq> [] \<and> 10 \<notin> set (butlast l)"
    unfolding file_lines_def using readlines_lines by blast
qed

theorem load_all_sent_posts_lines_witness:
  "sent_fs example_sent_state CRUNCHYROLL_SENT_FILE = SentText example_sent_text \<and>
   load_all_sent_posts CRUNCHYROLL_SENT_FILE example_sent_state =
     ({str ''abc'', str ''xyz''}, example_sent_state)"
  using load_all_sent_posts_lines [of example_sent_state CRUNCHYROLL_SENT_FILE example_sent_text]
  by (auto simp: load_all_sent_posts_def example_sent_state_def example_sent_text_def
      example_state_def file_lines_def str_def strip_def isspace_def)

section \<open>Missing configuration\<close>

text \<open>
  Claim C9. When the token or the chat identifier is missing (the environment variable is
  unset or empty), a run logs one error, the line reporting \<open>FATAL\<close> at level \<open>ERROR\<close>,
  and ends: the state is otherwise unchanged, so no feed is fetched, no delivery is
  attempted, nothing else is contacted and no file is written.
\<close>

theorem missing_configuration:
  "TELEGRAM_TOKEN w = None \<or> TELEGRAM_TOKEN w = Some [] \<or>
   TELEGRAM_CHAT_ID w = None \<or> TELEGRAM_CHAT_ID w = Some [] \<Longrightarrow>
   check_and_send_content w st = st\<lparr>log_lines := log_lines st @ [(ERROR, FatalNotSet)]\<rparr> \<and>
   trace (check_and_send_content w st) = trace st \<and>
   sent_fs (check_and_send_content w st) = sent_fs st \<and>
   articles_fs (check_and_send_content w st) = articles_fs st"
  by (auto simp: check_and_send_content_def truthy_def logging_def)

theorem missing_configuration_witness:
  "TELEGRAM_TOKEN (example_world\<lparr>TELEGRAM_TOKEN := None\<rparr>) = None \<and>
   trace (check_and_send_content (example_world\<lparr>TELEGRAM_TOKEN := None\<rparr>) example_state) = [] \<and>
   log_lines (check_and_send_content (example_world\<lparr>TELEGRAM_TOKEN := None\<rparr>) example_state) =
     [(ERROR, FatalNotSet)]"
  using missing_configuration [of "example_world\<lparr>TELEGRAM_TOKEN := None\<rparr>" example_state]
  by (simp add: example_state_def)

section \<open>What the delivery step changes\<close>

lemma add_logo_frame:
  "add_logo_to_image w u st = (r, st1) \<Longrightarrow>
   sent_fs st1 = sent_fs st \<and> articles_fs st1 = articles_fs st \<and>
   sent_posts st1 = sent_posts st \<and> new_posts_found st1 = new_posts_found st \<and>
   (trace st1 = trace st \<or> trace st1 = trace st @ [HttpGet u])"
  by (auto simp: add_logo_to_image_def logging_def Let_def split: option.splits if_splits)

lemma choose_delivery_frame:
  "choose_delivery w image_url caption st = (d, st1) \<Longrightarrow>
   sent_fs st1 = sent_fs st \<and> articles_fs st1 = articles_fs st \<and>
   sent_posts st1 = sent_posts st \<and> new_posts_found st1 = new_posts_found st \<and>
   (\<exists>ev. trace st1 = trace st @ ev \<and> (\<forall>x \<in> set ev. \<exists>u. x = HttpGet u))"
proof (cases "truthy image_url")
  case False
  assume "choose_delivery w image_url caption st = (d, st1)"
  with False have "st1 = st"
    by (auto simp: choose_delivery_def truthy_def split: option.splits if_splits)
  then show ?thesis by simp
next
  case True
  assume c: "choose_delivery w image_url caption st = (d, st1)"
  from True obtain u where u: "image_url = Some u" "u \<noteq> []"
    by (auto simp: truthy_def split: option.splits)
  obtain r where "add_logo_to_image w u st = (r, st1)"
    using c u by (auto simp: choose_delivery_def split: option.splits prod.splits)
  from add_logo_frame [OF this] show ?thesis by auto
qed

lemma save_sent_post_frame:
  "articles_fs (save_sent_post i p st) = articles_fs st \<and>
   trace (save_sent_post i p st) = trace st \<and>
   sent_posts (save_sent_post i p st) = sent_posts st \<and>
   new_posts_found (save_sent_post i p st) = new_posts_found st"
  by (simp add: save_sent_post_def logging_def split: sent_file.splits)

lemma send_entry_raises:
  "choose_delivery w image_url caption st = (d, st1) \<Longrightarrow> telegram_raises w (trace st1) d \<Longrightarrow>
   send_entry w f i post_id image_url caption st =
     logging ERROR (FailedToSend f) (st1\<lparr>trace := trace st1 @ [Telegram d False]\<rparr>)"
  by (simp add: send_entry_def)

lemma send_entry_returns:
  "choose_delivery w image_url caption st = (d, st1) \<Longrightarrow> \<not> telegram_raises w (trace st1) d \<Longrightarrow>
   send_entry w f i post_id image_url caption st =
     (let st4 = (save_sent_post post_id (SENT_FILE f) (st1\<lparr>trace := trace st1 @ [Telegram d True]\<rparr>))
                  \<lparr>sent_posts := insert post_id (sent_posts st1)\<rparr>
      in if i < 4 then st4\<lparr>trace := trace st4 @ [Sleep 2]\<rparr> else st4)"
  by (simp add: send_entry_def Let_def MAX_ENTRIES_TO_CHECK_def save_sent_post_frame)

lemma save_article_frame:
  "sent_fs (save_article r p st) = sent_fs st \<and> trace (save_article r p st) = trace st \<and>
   sent_posts (save_article r p st) = sent_posts st \<and>
   new_posts_found (save_article r p st) = new_posts_found st"
  by (simp add: save_article_def load_articles_def logging_def split: articles_file.splits)

lemma crunchyroll_new_post_frame:
  "crunchyroll_new_post w k e i t st = Inr (image_url, caption, st3) \<Longrightarrow>
   sent_fs st3 = sent_fs st \<and> trace st3 = trace st \<and> sent_posts st3 = sent_posts st"
  by (auto simp: crunchyroll_new_post_def Let_def save_article_frame logging_def
      split: sum.splits option.splits)

lemma youtube_new_video_frame:
  "youtube_new_video w k e i t st = Inr (image_url, caption, st3) \<Longrightarrow>
   sent_fs st3 = sent_fs st \<and> trace st3 = trace st \<and> sent_posts st3 = sent_posts st"
  by (auto simp: youtube_new_video_def Let_def save_article_frame logging_def
      split: sum.splits option.splits)

lemma send_entry_sent_posts:
  "sent_posts st \<subseteq> sent_posts (send_entry w f k i image_url caption st)"
proof -
  obtain d st1 where c: "choose_delivery w image_url caption st = (d, st1)"
    by (cases "choose_delivery w image_url caption st")
  have s: "sent_posts st1 = sent_posts st" using choose_delivery_frame [OF c] by simp
  show ?thesis
  proof (cases "telegram_raises w (trace st1) d")
    case True
    then show ?thesis using s by (simp add: send_entry_raises [OF c] logging_def)
  next
    case False
    then show ?thesis using s by (auto simp: send_entry_returns [OF c] Let_def)
  qed
qed

lemma crunchyroll_entry_sent_posts:
  "sent_posts st \<subseteq> sent_posts (snd (crunchyroll_entry w k e st))"
proof (cases "entry_id e")
  case None
  then show ?thesis by (simp add: crunchyroll_entry_def)
next
  case (Some i)
  show ?thesis
  proof (cases "title e")
    case None
    with Some show ?thesis by (simp add: crunchyroll_entry_def)
  next
    case t: (Some t)
    show ?thesis
    proof (cases "crunchyroll_new_post w k e i t st")
      case (Inl x)
      with Some t show ?thesis by (simp add: crunchyroll_entry_def logging_def)
    next
      case (Inr r)
      obtain image_url caption st3 where r: "r = (image_url, caption, st3)" by (cases r)
      then have "sent_posts st3 = sent_posts st"
        using crunchyroll_new_post_frame Inr by blast
      then show ?thesis
        using Some t Inr r send_entry_sent_posts [of st3 w Crunchyroll k i image_url caption]
        by (simp add: crunchyroll_entry_def logging_def)
    qed
  qed
qed

lemma youtube_entry_sent_posts:
  "sent_posts st \<subseteq> sent_posts (snd (youtube_entry w k e st))"
proof (cases "yt_videoid e")
  case None
  then show ?thesis by (simp add: youtube_entry_def)
next
  case (Some i)
  show ?thesis
  proof (cases "title e")
    case None
    with Some show ?thesis by (simp add: youtube_entry_def)
  next
    case t: (Some t)
    show ?thesis
    proof (cases "youtube_new_video w k e i t st")
      case (Inl x)
      with Some t show ?thesis by (simp add: youtube_entry_def logging_def)
    next
      case (Inr r)
      obtain image_url caption st3 where r: "r = (image_url, caption, st3)" by (cases r)
      then have "sent_posts st3 = sent_posts st"
        using youtube_new_video_frame Inr by blast
      then show ?thesis
        using Some t Inr r send_entry_sent_posts [of st3 w YouTube k i image_url caption]
        by (simp add: youtube_entry_def logging_def)
    qed
  qed
qed

lemma start_check_sent_posts:
  "sent_posts (start_check sent_file url st) = fst (load_all_sent_posts sent_file st)"
  by (simp add: start_check_def split: prod.splits)

lemma for_entries_append:
  "for_entries body k (pre @ es) st =
     (case for_entries body k pre st of
        (Raised x, s) \<Rightarrow> (Raised x, s)
      | (Continue, s) \<Rightarrow> for_entries body (k + length pre) es s)"
  by (induction pre arbitrary: k st) (auto split: prod.splits flow.splits)

section \<open>Entries that were already sent\<close>

text \<open>
  Claim C1, as the code has it. Take a considered entry whose id (\<open>id\<close> for Crunchyroll,
  \<open>yt_videoid\<close> for YouTube) is in the set of sent ids when the entry is reached. The
  processor then attempts no delivery and causes no other effect, saves no record and
  writes nothing to the file of sent ids, and the set itself stays as it is. If the entry
  has a title, the processor logs that the entry was already sent and continues with the
  next entry; if it has no title, reading the title raises before the check, and the loop
  is left with nothing logged by the body. An id that is in the set stays in the set
  while later entries are processed, whether it was loaded or added in this run.
\<close>

theorem seen_entry_skipped:
  "(entry_id e = Some i \<and> i \<in> sent_posts st \<longrightarrow>
      (case title e of
         None \<Rightarrow> crunchyroll_entry w k e st = (Raised AttributeError, st)
       | Some t \<Rightarrow>
           crunchyroll_entry w k e st = (Continue, logging INFO (AlreadySent Crunchyroll t) st) \<and>
           for_entries (crunchyroll_entry w) k (e # es) st =
             for_entries (crunchyroll_entry w) (Suc k) es (logging INFO (AlreadySent Crunchyroll t) st)) \<and>
      trace (snd (crunchyroll_entry w k e st)) = trace st \<and>
      articles_fs (snd (crunchyroll_entry w k e st)) = articles_fs st \<and>
      sent_fs (snd (crunchyroll_entry w k e st)) = sent_fs st \<and>
      sent_posts (snd (crunchyroll_entry w k e st)) = sent_posts st) \<and>
   (yt_videoid e = Some i \<and> i \<in> sent_posts st \<longrightarrow>
      (case title e of
         None \<Rightarrow> youtube_entry w k e st = (Raised AttributeError, st)
       | Some t \<Rightarrow>
           youtube_entry w k e st = (Continue, logging INFO (AlreadySent YouTube t) st) \<and>
           for_entries (youtube_entry w) k (e # es) st =
             for_entries (youtube_entry w) (Suc k) es (logging INFO (AlreadySent YouTube t) st)) \<and>
      trace (snd (youtube_entry w k e st)) = trace st \<and>
      articles_fs (snd (youtube_entry w k e st)) = articles_fs st \<and>
      sent_fs (snd (youtube_entry w k e st)) = sent_fs st \<and>
      sent_posts (snd (youtube_entry w k e st)) = sent_posts st) \<and>
   sent_posts st \<subseteq> sent_posts (snd (crunchyroll_entry w k e st)) \<and>
   sent_posts st \<subseteq> sent_posts (snd (youtube_entry w k e st))"
proof (intro conjI impI)
  show "sent_posts st \<subseteq> sent_posts (snd (crunchyroll_entry w k e st))"
    by (rule crunchyroll_entry_sent_posts)
  show "sent_posts st \<subseteq> sent_posts (snd (youtube_entry w k e st))"
    by (rule youtube_entry_sent_posts)
qed (auto simp: crunchyroll_entry_def youtube_entry_def logging_def split: option.splits)

theorem seen_entry_skipped_witness:
  "entry_id (example_entry (str ''a'')) = Some (str ''a'') \<and>
   yt_videoid (example_entry (str ''a'')) = Some (str ''a'') \<and>
   str ''a'' \<in> sent_posts seen_state \<and>
   crunchyroll_entry example_world 0 (example_entry (str ''a'')) seen_state =
     (Continue, logging INFO (AlreadySent Crunchyroll (str ''title'')) seen_state) \<and>
   youtube_entry example_world 0 (example_entry (str ''a'')) seen_state =
     (Continue, logging INFO (AlreadySent YouTube (str ''title'')) seen_state)"
  using seen_entry_skipped [of "example_entry (str ''a'')" "str ''a''" seen_state example_world 0 "[]"]
  by (simp add: example_entry_def seen_state_def example_state_def)

text \<open>
  The claim as first stated, that the processor logs and continues after every such
  entry, fails for an entry without title: the entry \<open>b\<close> after it, which alone would be
  delivered, is not processed, and nothing is logged.
\<close>

theorem seen_entry_without_title:
  "entry_id seen_untitled_entry = Some (str ''a'') \<and> str ''a'' \<in> sent_posts seen_state \<and>
   for_entries (crunchyroll_entry example_world) 0
     [seen_untitled_entry, example_entry (str ''b'')] seen_state =
     (Raised AttributeError, seen_state) \<and>
   trace (snd (for_entries (crunchyroll_entry example_world) 0 [example_entry (str ''b'')] seen_state)) =
     [Telegram (SendMessage (Some (str ''chat'')) ([128240] @ str '' *title*'' @ [10, 10] @ str ''text'')) True,
      Sleep 2]"
  by (simp add: seen_untitled_entry_def example_entry_def seen_state_def example_state_def
      example_world_def crunchyroll_entry_def crunchyroll_new_post_def crunchyroll_image_url_def
      thumbnail_url_def truthy_def clean_description_def pub_date_def save_article_def
      load_articles_def logging_def send_entry_def choose_delivery_def save_sent_post_def
      SENT_FILE_def MAX_ENTRIES_TO_CHECK_def shorten_text_def split_def slice_to_def strip_def
      str_def isspace_def Let_def)

section \<open>Entries without id or title\<close>

lemma crunchyroll_missing_field:
  "entry_id e = None \<or> title e = None \<Longrightarrow> crunchyroll_entry w k e st = (Raised AttributeError, st)"
  by (auto simp: crunchyroll_entry_def split: option.splits)

lemma youtube_missing_field:
  "yt_videoid e = None \<or> title e = None \<Longrightarrow> youtube_entry w k e st = (Raised AttributeError, st)"
  by (auto simp: youtube_entry_def split: option.splits)

lemma for_entries_raising:
  "body (k + length pre) e = (\<lambda>st. (Raised x, st)) \<Longrightarrow>
   for_entries body k (pre @ e # post) st =
     (case for_entries body k pre st of
        (Raised y, s) \<Rightarrow> (Raised y, s)
      | (Continue, s) \<Rightarrow> (Raised x, s))"
  by (simp add: for_entries_append split: prod.splits flow.splits)

lemma crunchyroll_loop_missing:
  "entry_id e = None \<or> title e = None \<Longrightarrow>
   for_entries (crunchyroll_entry w) k (pre @ e # post) st =
     (case for_entries (crunchyroll_entry w) k pre st of
        (Raised y, s) \<Rightarrow> (Raised y, s)
      | (Continue, s) \<Rightarrow> (Raised AttributeError, s))"
  by (rule for_entries_raising) (auto simp: crunchyroll_missing_field)

lemma youtube_loop_missing:
  "yt_videoid e = None \<or> title e = None \<Longrightarrow>
   for_entries (youtube_entry w) k (pre @ e # post) st =
     (case for_entries (youtube_entry w) k pre st of
        (Raised y, s) \<Rightarrow> (Raised y, s)
      | (Continue, s) \<Rightarrow> (Raised AttributeError, s))"
  by (rule for_entries_raising) (auto simp: youtube_missing_field)

lemma crunchyroll_check_missing:
  assumes "entry_id e = None \<or> title e = None"
    and "feedparser_parse w CRUNCHYROLL_RSS_URL = Some entries"
    and "take MAX_ENTRIES_TO_CHECK entries = pre @ e # post"
  shows "check_and_send_crunchyroll_news w st =
     completed Crunchyroll (logging ERROR (ErrorParsingFeed Crunchyroll)
       (snd (for_entries (crunchyroll_entry w) 0 pre
          (start_check CRUNCHYROLL_SENT_FILE CRUNCHYROLL_RSS_URL st))))"
proof -
  from assms(3) have "entries \<noteq> []" by auto
  then show ?thesis
    using assms(2,3) crunchyroll_loop_missing [OF assms(1), of w 0 pre post]
    by (simp add: check_and_send_crunchyroll_news_def Let_def split: prod.splits flow.splits)
qed

lemma youtube_check_missing:
  assumes "yt_videoid e = None \<or> title e = None"
    and "feedparser_parse w YOUTUBE_RSS_URL = Some entries"
    and "take MAX_ENTRIES_TO_CHECK entries = pre @ e # post"
  shows "check_and_send_youtube_video w st =
     completed YouTube (logging ERROR (ErrorParsingFeed YouTube)
       (snd (for_entries (youtube_entry w) 0 pre
          (start_check YOUTUBE_SENT_FILE YOUTUBE_RSS_URL st))))"
proof -
  from assms(3) have "entries \<noteq> []" by auto
  then show ?thesis
    using assms(2,3) youtube_loop_missing [OF assms(1), of w 0 pre post]
    by (simp add: check_and_send_youtube_video_def Let_def split: prod.splits flow.splits)
qed

text \<open>
  Claim C3, as the code has it. A considered entry that lacks its id (\<open>id\<close> for
  Crunchyroll, \<open>yt_videoid\<close> for YouTube) or its title raises \<open>AttributeError\<close> in the loop
  body, outside the handler of the delivery. The entry itself changes nothing; the
  entries before it are processed as usual; the loop is left, so the entries after it
  are not processed in this run; the processor logs a parsing error of the feed and its
  closing line.
\<close>

theorem missing_field_ends_loop:
  "(entry_id e = None \<or> title e = None \<longrightarrow>
      crunchyroll_entry w k e st = (Raised AttributeError, st) \<and>
      for_entries (crunchyroll_entry w) k (pre @ e # post) st =
        (case for_entries (crunchyroll_entry w) k pre st of
           (Raised y, s) \<Rightarrow> (Raised y, s)
         | (Continue, s) \<Rightarrow> (Raised AttributeError, s)) \<and>
      (feedparser_parse w CRUNCHYROLL_RSS_URL = Some entries \<and>
       take MAX_ENTRIES_TO_CHECK entries = pre @ e # post \<longrightarrow>
       check_and_send_crunchyroll_news w st =
         completed Crunchyroll (logging ERROR (ErrorParsingFeed Crunchyroll)
           (snd (for_entries (crunchyroll_entry w) 0 pre
              (start_check CRUNCHYROLL_SENT_FILE CRUNCHYROLL_RSS_URL st)))))) \<and>
   (yt_videoid e = None \<or> title e = None \<longrightarrow>
      youtube_entry w k e st = (Raised AttributeError, st) \<and>
      for_entries (youtube_entry w) k (pre @ e # post) st =
        (case for_entries (youtube_entry w) k pre st of
           (Raised y, s) \<Rightarrow> (Raised y, s)
         | (Continue, s) \<Rightarrow> (Raised AttributeError, s)) \<and>
      (feedparser_parse w YOUTUBE_RSS_URL = Some entries \<and>
       take MAX_ENTRIES_TO_CHECK entries = pre @ e # post \<longrightarrow>
       check_and_send_youtube_video w st =
         completed YouTube (logging ERROR (ErrorParsingFeed YouTube)
           (snd (for_entries (youtube_entry w) 0 pre
              (start_check YOUTUBE_SENT_FILE YOUTUBE_RSS_URL st))))))"
  using crunchyroll_missing_field [of e w k st] youtube_missing_field [of e w k st]
    crunchyroll_loop_missing [of e w k pre post st] youtube_loop_missing [of e w k pre post st]
    crunchyroll_check_missing [of e w entries pre post st]
    youtube_check_missing [of e w entries pre post st]
  by blast

theorem missing_field_ends_loop_witness:
  "entry_id entry_without_id = None \<and>
   title ((example_entry (str ''a''))\<lparr>title := None\<rparr>) = None \<and>
   feedparser_parse two_entry_world CRUNCHYROLL_RSS_URL =
     Some [entry_without_id, example_entry (str ''b'')] \<and>
   take MAX_ENTRIES_TO_CHECK [entry_without_id, example_entry (str ''b'')] =
     [] @ entry_without_id # [example_entry (str ''b'')] \<and>
   check_and_send_crunchyroll_news two_entry_world example_state =
     completed Crunchyroll (logging ERROR (ErrorParsingFeed Crunchyroll)
       (start_check CRUNCHYROLL_SENT_FILE CRUNCHYROLL_RSS_URL example_state)) \<and>
   youtube_entry example_world 0 ((example_entry (str ''a''))\<lparr>title := None\<rparr>) example_state =
     (Raised AttributeError, example_state)"
  using missing_field_ends_loop [of entry_without_id two_entry_world 0 example_state "[]"
      "[example_entry (str ''b'')]" "[entry_without_id, example_entry (str ''b'')]"]
    missing_field_ends_loop [of "(example_entry (str ''a''))\<lparr>title := None\<rparr>" example_world 0
      example_state "[]" "[]" "[]"]
  by (simp add: entry_without_id_def example_entry_def two_entry_world_def example_world_def
      MAX_ENTRIES_TO_CHECK_def)

text \<open>
  The claim as first stated, that the processor skips such an entry and continues with
  the next ones, fails: with an entry without id before the new entry \<open>b\<close>, the run of
  the Crunchyroll processor fetches the feed and does nothing else but log the parsing
  error, while \<open>b\<close> alone is delivered.
\<close>

theorem missing_id_stops_feed:
  "entry_id entry_without_id = None \<and>
   feedparser_parse two_entry_world CRUNCHYROLL_RSS_URL =
     Some [entry_without_id, example_entry (str ''b'')] \<and>
   trace (check_and_send_crunchyroll_news two_entry_world example_state) =
     [FeedFetch CRUNCHYROLL_RSS_URL] \<and>
   log_lines (check_and_send_crunchyroll_news two_entry_world example_state) =
     [(ERROR, ErrorParsingFeed Crunchyroll), (INFO, CheckCompleted Crunchyroll 0)] \<and>
   articles_fs (check_and_send_crunchyroll_news two_entry_world example_state)
     CRUNCHYROLL_ARTICLES_FILE = NoArticlesFile \<and>
   trace (check_and_send_crunchyroll_news one_entry_world example_state) =
     [FeedFetch CRUNCHYROLL_RSS_URL,
      Telegram (SendMessage (Some (str ''chat'')) ([128240] @ str '' *title*'' @ [10, 10] @ str ''text'')) True,
      Sleep 2]"
  by (simp add: entry_without_id_def example_entry_def example_state_def
      example_world_def two_entry_world_def one_entry_world_def
      check_and_send_crunchyroll_news_def start_check_def load_all_sent_posts_def completed_def
      crunchyroll_entry_def crunchyroll_new_post_def crunchyroll_image_url_def
      thumbnail_url_def truthy_def clean_description_def pub_date_def save_article_def
      load_articles_def logging_def send_entry_def choose_delivery_def save_sent_post_def
      SENT_FILE_def MAX_ENTRIES_TO_CHECK_def shorten_text_def split_def slice_to_def strip_def
      str_def isspace_def Let_def CRUNCHYROLL_SENT_FILE_def CRUNCHYROLL_ARTICLES_FILE_def)

section \<open>A delivery that fails\<close>









section \<open>The delay between entries\<close>

lemma send_entry_effects:
  "\<exists>hs d b. (\<forall>x \<in> set hs. \<exists>u. x = HttpGet u) \<and>
     trace (send_entry w f k i image_url caption st) =
       trace st @ hs @ Telegram d b # (if b \<and> k < 4 then [Sleep 2] else [])"
proof -
  obtain d st1 where c: "choose_delivery w image_url caption st = (d, st1)"
    by (cases "choose_delivery w image_url caption st")
  from choose_delivery_frame [OF c] obtain hs where
    hs: "trace st1 = trace st @ hs" "\<forall>x \<in> set hs. \<exists>u. x = HttpGet u" by blast
  show ?thesis
  proof (cases "telegram_raises w (trace st1) d")
    case True
    then have "trace (send_entry w f k i image_url caption st) =
        trace st @ hs @ Telegram d False # (if False \<and> k < 4 then [Sleep 2] else [])"
      using hs by (simp add: send_entry_raises [OF c] logging_def)
    with hs(2) show ?thesis by blast
  next
    case False
    then have "trace (send_entry w f k i image_url caption st) =
        trace st @ hs @ Telegram d True # (if True \<and> k < 4 then [Sleep 2] else [])"
      using hs by (simp add: send_entry_returns [OF c] Let_def save_sent_post_frame)
    with hs(2) show ?thesis by blast
  qed
qed

lemma crunchyroll_entry_effects:
  "trace (snd (crunchyroll_entry w k e st)) = trace st \<or>
   (\<exists>hs d b. (\<forall>x \<in> set hs. \<exists>u. x = HttpGet u) \<and>
      trace (snd (crunchyroll_entry w k e st)) =
        trace st @ hs @ Telegram d b # (if b \<and> k < 4 then [Sleep 2] else []))"
proof (cases "entry_id e")
  case None
  then show ?thesis by (simp add: crunchyroll_entry_def)
next
  case (Some i)
  show ?thesis
  proof (cases "title e")
    case None
    with Some show ?thesis by (simp add: crunchyroll_entry_def)
  next
    case t: (Some t)
    show ?thesis
    proof (cases "crunchyroll_new_post w k e i t st")
      case (Inl x)
      with Some t show ?thesis by (simp add: crunchyroll_entry_def logging_def)
    next
      case (Inr r)
      obtain image_url caption st3 where r: "r = (image_url, caption, st3)" by (cases r)
      then have "trace st3 = trace st"
        using crunchyroll_new_post_frame Inr by blast
      then show ?thesis
        using Some t Inr r send_entry_effects [of w Crunchyroll k i image_url caption st3]
        by (simp add: crunchyroll_entry_def logging_def)
    qed
  qed
qed

lemma youtube_entry_effects:
  "trace (snd (youtube_entry w k e st)) = trace st \<or>
   (\<exists>hs d b. (\<forall>x \<in> set hs. \<exists>u. x = HttpGet u) \<and>
      trace (snd (youtube_entry w k e st)) =
        trace st @ hs @ Telegram d b # (if b \<and> k < 4 then [Sleep 2] else []))"
proof (cases "yt_videoid e")
  case None
  then show ?thesis by (simp add: youtube_entry_def)
next
  case (Some i)
  show ?thesis
  proof (cases "title e")
    case None
    with Some show ?thesis by (simp add: youtube_entry_def)
  next
    case t: (Some t)
    show ?thesis
    proof (cases "youtube_new_video w k e i t st")
      case (Inl x)
      with Some t show ?thesis by (simp add: youtube_entry_def logging_def)
    next
      case (Inr r)
      obtain image_url caption st3 where r: "r = (image_url, caption, st3)" by (cases r)
      then have "trace st3 = trace st"
        using youtube_new_video_frame Inr by blast
      then show ?thesis
        using Some t Inr r send_entry_effects [of w YouTube k i image_url caption st3]
        by (simp add: youtube_entry_def logging_def)
    qed
  qed
qed

lemma filter_sleep_gets: "\<forall>x \<in> set hs. \<exists>u. x = HttpGet u \<Longrightarrow> filter is_sleep hs = []"
  by (induction hs) (auto simp: is_sleep_def)

lemma sleeps_of_effects:
  assumes "trace s1 = trace st \<or>
     (\<exists>hs d b. (\<forall>x \<in> set hs. \<exists>u. x = HttpGet u) \<and>
        trace s1 = trace st @ hs @ Telegram d b # (if b \<and> k < 4 then [Sleep 2] else []))"
  shows "trace s1 = trace st @ new_effects st s1 \<and>
     filter is_sleep (new_effects st s1) =
       (if k < 4 \<and> (\<exists>d. Telegram d True \<in> set (new_effects st s1)) then [Sleep 2] else []) \<and>
     (k < 4 \<and> (\<exists>d. Telegram d True \<in> set (new_effects st s1)) \<longrightarrow>
        (\<exists>hs d. new_effects st s1 = hs @ [Telegram d True, Sleep 2]))"
  using assms
proof
  assume "trace s1 = trace st"
  then show ?thesis by (simp add: new_effects_def)
next
  assume "\<exists>hs d b. (\<forall>x \<in> set hs. \<exists>u. x = HttpGet u) \<and>
        trace s1 = trace st @ hs @ Telegram d b # (if b \<and> k < 4 then [Sleep 2] else [])"
  then obtain hs d b where h: "\<forall>x \<in> set hs. \<exists>u. x = HttpGet u"
    and t: "trace s1 = trace st @ hs @ Telegram d b # (if b \<and> k < 4 then [Sleep 2] else [])"
    by blast
  have n: "new_effects st s1 = hs @ Telegram d b # (if b \<and> k < 4 then [Sleep 2] else [])"
    by (simp add: new_effects_def t)
  have g: "Telegram d' True \<notin> set hs" for d' using h by auto
  show ?thesis
  proof (cases "b \<and> k < 4")
    case True
    then show ?thesis using t n g filter_sleep_gets [OF h] by (auto simp: is_sleep_def)
  next
    case False
    then show ?thesis using t n g filter_sleep_gets [OF h] by (auto simp: is_sleep_def)
  qed
qed

lemma crunchyroll_example_step:
  "crunchyroll_entry example_world k (example_entry (str ''b'')) example_state =
     (Continue,
      (saved_state Crunchyroll (str ''Crunchyroll News'') CRUNCHYROLL_ARTICLES_FILE)
        \<lparr>sent_fs := (\<lambda>p. NoSentFile)(CRUNCHYROLL_SENT_FILE := SentText (str ''b'' @ [10])),
         trace := Telegram (SendMessage (Some (str ''chat'')) crunchyroll_caption) True #
                  (if k < 4 then [Sleep 2] else []),
         sent_posts := {str ''b''}\<rparr>)"
  by (simp add: crunchyroll_entry_def crunchyroll_new_post_def crunchyroll_image_url_def
      thumbnail_url_def truthy_def example_entry_def example_world_def clean_description_def
      pub_date_def crunchyroll_caption_def saved_state_def saved_article_def shorten_text_def
      split_def slice_to_def strip_def str_def isspace_def Let_def logging_def example_state_def
      send_entry_def choose_delivery_def save_sent_post_def save_article_def load_articles_def
      SENT_FILE_def MAX_ENTRIES_TO_CHECK_def)

lemma youtube_example_step:
  "youtube_entry example_world k (example_entry (str ''b'')) example_state =
     (Continue,
      (saved_state YouTube (str ''YouTube Video'') YOUTUBE_ARTICLES_FILE)
        \<lparr>sent_fs := (\<lambda>p. NoSentFile)(YOUTUBE_SENT_FILE := SentText (str ''b'' @ [10])),
         trace := Telegram (SendMessage (Some (str ''chat'')) youtube_caption) True #
                  (if k < 4 then [Sleep 2] else []),
         sent_posts := {str ''b''}\<rparr>)"
  by (simp add: youtube_entry_def youtube_new_video_def
      thumbnail_url_def truthy_def example_entry_def example_world_def clean_description_def
      pub_date_def youtube_caption_def saved_state_def saved_article_def shorten_text_def
      split_def slice_to_def strip_def str_def isspace_def Let_def logging_def example_state_def
      send_entry_def choose_delivery_def save_sent_post_def save_article_def load_articles_def
      SENT_FILE_def MAX_ENTRIES_TO_CHECK_def)

text \<open>
  Claim C5, as the code has it. Let a considered entry at index \<open>k\<close> have a successor
  among the at most five considered entries. The processor sleeps for 2 seconds after
  that entry exactly when the entry was delivered, that is, when a call of the bot was
  made for it and returned; the sleep is then the last effect of the entry, directly
  after that call. After an entry that was already sent, after a delivery that raised
  and after an entry that raises, it does not sleep. After the fifth entry (index 4) it
  never sleeps.
\<close>

theorem sleep_after_delivery:
  "(k + length (e # e' # es) \<le> MAX_ENTRIES_TO_CHECK \<longrightarrow>
      trace (snd (crunchyroll_entry w k e st)) =
        trace st @ new_effects st (snd (crunchyroll_entry w k e st)) \<and>
      filter is_sleep (new_effects st (snd (crunchyroll_entry w k e st))) =
        (if \<exists>d. Telegram d True \<in> set (new_effects st (snd (crunchyroll_entry w k e st)))
         then [Sleep 2] else []) \<and>
      ((\<exists>d. Telegram d True \<in> set (new_effects st (snd (crunchyroll_entry w k e st)))) \<longrightarrow>
         (\<exists>hs d. new_effects st (snd (crunchyroll_entry w k e st)) = hs @ [Telegram d True, Sleep 2])) \<and>
      trace (snd (youtube_entry w k e st)) =
        trace st @ new_effects st (snd (youtube_entry w k e st)) \<and>
      filter is_sleep (new_effects st (snd (youtube_entry w k e st))) =
        (if \<exists>d. Telegram d True \<in> set (new_effects st (snd (youtube_entry w k e st)))
         then [Sleep 2] else []) \<and>
      ((\<exists>d. Telegram d True \<in> set (new_effects st (snd (youtube_entry w k e st)))) \<longrightarrow>
         (\<exists>hs d. new_effects st (snd (youtube_entry w k e st)) = hs @ [Telegram d True, Sleep 2]))) \<and>
   (MAX_ENTRIES_TO_CHECK \<le> Suc k \<longrightarrow>
      filter is_sleep (new_effects st (snd (crunchyroll_entry w k e st))) = [] \<and>
      filter is_sleep (new_effects st (snd (youtube_entry w k e st))) = [])"
proof (intro conjI impI)
  assume "k + length (e # e' # es) \<le> MAX_ENTRIES_TO_CHECK"
  then have k: "k < 4" by (simp add: MAX_ENTRIES_TO_CHECK_def)
  note c = sleeps_of_effects [OF crunchyroll_entry_effects, of w k e st]
  note y = sleeps_of_effects [OF youtube_entry_effects, of w k e st]
  show "trace (snd (crunchyroll_entry w k e st)) =
        trace st @ new_effects st (snd (crunchyroll_entry w k e st))"
    using c by blast
  show "filter is_sleep (new_effects st (snd (crunchyroll_entry w k e st))) =
        (if \<exists>d. Telegram d True \<in> set (new_effects st (snd (crunchyroll_entry w k e st)))
         then [Sleep 2] else [])"
    using c k by simp
  show "\<exists>hs d. new_effects st (snd (crunchyroll_entry w k e st)) = hs @ [Telegram d True, Sleep 2]"
    if "\<exists>d. Telegram d True \<in> set (new_effects st (snd (crunchyroll_entry w k e st)))"
    using c k that by blast
  show "trace (snd (youtube_entry w k e st)) =
        trace st @ new_effects st (snd (youtube_entry w k e st))"
    using y by blast
  show "filter is_sleep (new_effects st (snd (youtube_entry w k e st))) =
        (if \<exists>d. Telegram d True \<in> set (new_effects st (snd (youtube_entry w k e st)))
         then [Sleep 2] else [])"
    using y k by simp
  show "\<exists>hs d. new_effects st (snd (youtube_entry w k e st)) = hs @ [Telegram d True, Sleep 2]"
    if "\<exists>d. Telegram d True \<in> set (new_effects st (snd (youtube_entry w k e st)))"
    using y k that by blast
next
  assume "MAX_ENTRIES_TO_CHECK \<le> Suc k"
  then have k: "\<not> k < 4" by (simp add: MAX_ENTRIES_TO_CHECK_def)
  show "filter is_sleep (new_effects st (snd (crunchyroll_entry w k e st))) = []"
    using sleeps_of_effects [OF crunchyroll_entry_effects, of w k e st] k by simp
  show "filter is_sleep (new_effects st (snd (youtube_entry w k e st))) = []"
    using sleeps_of_effects [OF youtube_entry_effects, of w k e st] k by simp
qed

theorem sleep_after_delivery_witness:
  "0 + length [example_entry (str ''b''), example_entry (str ''d'')] \<le> MAX_ENTRIES_TO_CHECK \<and>
   MAX_ENTRIES_TO_CHECK \<le> Suc 4 \<and>
   new_effects example_state (snd (crunchyroll_entry example_world 0 (example_entry (str ''b'')) example_state)) =
     [Telegram (SendMessage (Some (str ''chat'')) crunchyroll_caption) True, Sleep 2] \<and>
   new_effects example_state (snd (youtube_entry example_world 0 (example_entry (str ''b'')) example_state)) =
     [Telegram (SendMessage (Some (str ''chat'')) youtube_caption) True, Sleep 2] \<and>
   filter is_sleep (new_effects example_state
     (snd (crunchyroll_entry example_world 4 (example_entry (str ''b'')) example_state))) = [] \<and>
   filter is_sleep (new_effects example_state
     (snd (youtube_entry example_world 4 (example_entry (str ''b'')) example_state))) = []"
proof -
  have t: "trace example_state = []" by (simp add: example_state_def)
  show ?thesis
    using sleep_after_delivery [of 0 "example_entry (str ''b'')" "example_entry (str ''d'')" "[]"
        example_world example_state]
      sleep_after_delivery [of 4 "example_entry (str ''b'')" "example_entry (str ''d'')" "[]"
        example_world example_state]
    by (simp add: crunchyroll_example_step youtube_example_step new_effects_def
        MAX_ENTRIES_TO_CHECK_def t is_sleep_def)
qed

text \<open>
  The claim as first stated, a delay between each pair of successive considered entries,
  fails: two entries that were both sent before are considered one after the other with
  no sleep, and no other effect, between them.
\<close>

theorem no_sleep_between_sent_entries:
  "for_entries (crunchyroll_entry example_world) 0
     [example_entry (str ''a''), example_entry (str ''c'')] seen_state =
     (Continue,
      seen_state\<lparr>log_lines :=
        [(INFO, AlreadySent Crunchyroll (str ''title'')),
         (INFO, AlreadySent Crunchyroll (str ''title''))]\<rparr>) \<and>
   trace (snd (for_entries (crunchyroll_entry example_world) 0
     [example_entry (str ''a''), example_entry (str ''c'')] seen_state)) = []"
  by (simp add: crunchyroll_entry_def example_entry_def seen_state_def example_state_def
      logging_def str_def)

section \<open>Rounding to a double\<close>
















section \<open>Placing the logo\<close>




lemma truncated_height: "int_of_float (int_times_float 100 (true_div 29 100)) = 28"
  by code_simp



section \<open>Cleaning a description\<close>

text \<open>
  Claim C8. \<open>clean_description\<close> returns the empty string for \<open>None\<close> and for the empty
  string. For any other input it hands the input to the HTML parser and returns the text
  of the document with the whitespace at both ends removed, so the result never begins
  or ends with whitespace. The HTML parser is a library outside the repository: with any
  parser that gives the text \<open>Hi there\<close> for \<open><p>Hi <b>there</b></p>\<close>, the result
  for that input is \<open>Hi there\<close>.
\<close>

theorem clean_description_text:
  "clean_description w None = [] \<and>
   clean_description w (Some []) = [] \<and>
   (html \<noteq> [] \<longrightarrow> clean_description w (Some html) = strip (soup_get_text w html)) \<and>
   strip (clean_description w d) = clean_description w d \<and>
   (soup_get_text w (str ''<p>Hi <b>there</b></p>'') = str ''Hi there'' \<longrightarrow>
      clean_description w (Some (str ''<p>Hi <b>there</b></p>'')) = str ''Hi there'')"
proof (intro conjI impI)
  show "strip (clean_description w d) = clean_description w d"
    by (auto simp: clean_description_def strip_strip strip_def [of "[]"] split: option.splits)
  assume "soup_get_text w (str ''<p>Hi <b>there</b></p>'') = str ''Hi there''"
  then show "clean_description w (Some (str ''<p>Hi <b>there</b></p>'')) = str ''Hi there''"
    by (simp add: clean_description_def) (simp add: str_def strip_def isspace_def)
qed (simp_all add: clean_description_def)

theorem clean_description_text_witness:
  "str ''<p>Hi <b>there</b></p>'' \<noteq> [] \<and>
   soup_get_text html_world (str ''<p>Hi <b>there</b></p>'') = str ''Hi there'' \<and>
   clean_description html_world (Some (str ''<p>Hi <b>there</b></p>'')) = str ''Hi there'' \<and>
   clean_description html_world (Some (str ''  <i>x</i> '')) = str ''x''"
  using clean_description_text [of html_world "str ''<p>Hi <b>there</b></p>''"]
    clean_description_text [of html_world "str ''  <i>x</i> ''"]
  by (simp add: html_world_def example_world_def str_def strip_def isspace_def)

end
